theory Spec2Isabelle
  imports Main "HOL-Library.Word"
begin

unbundle bit_operations_syntax

section \<open>Control protocol: message types and documented payloads\<close>

text \<open>
  The protocol document of the repository (``Control specifications'') lists the
  type tags of a decrypted payload and draws the byte layout of the four server
  events. All data is little-endian.
\<close>

type_synonym byte = "8 word"
type_synonym u16 = "16 word"

datatype PACKET_TYPE =
    START_A
  | START_B
  | INVALIDATE_REF_FRAMES
  | LOSS_STATS
  | FRAME_STATS
  | INPUT_DATA
  | TERMINATION
  | PERIODIC_PING
  | IDR_FRAME
  | HDR_MODE
  | RUMBLE_DATA
  | RUMBLE_TRIGGERS
  | MOTION_EVENT
  | RGB_LED

text \<open>The tag of each type, as the document's list gives it.\<close>

fun type_tag :: "PACKET_TYPE \<Rightarrow> u16" where
  "type_tag START_A = 0x0305"
| "type_tag START_B = 0x0307"
| "type_tag INVALIDATE_REF_FRAMES = 0x0301"
| "type_tag LOSS_STATS = 0x0201"
| "type_tag FRAME_STATS = 0x0204"
| "type_tag INPUT_DATA = 0x0206"
| "type_tag TERMINATION = 0x0100"
| "type_tag PERIODIC_PING = 0x0200"
| "type_tag IDR_FRAME = 0x0302"
| "type_tag HDR_MODE = 0x010e"
| "type_tag RUMBLE_DATA = 0x010b"
| "type_tag RUMBLE_TRIGGERS = 0x5500"
| "type_tag MOTION_EVENT = 0x5501"
| "type_tag RGB_LED = 0x5502"

definition all_packet_types :: "PACKET_TYPE list" where
  "all_packet_types =
     [START_A, START_B, INVALIDATE_REF_FRAMES, LOSS_STATS, FRAME_STATS, INPUT_DATA,
      TERMINATION, PERIODIC_PING, IDR_FRAME, HDR_MODE, RUMBLE_DATA, RUMBLE_TRIGGERS,
      MOTION_EVENT, RGB_LED]"

text \<open>Reading a tag back: the first type of the closed set that carries it.\<close>

definition packet_type_of :: "u16 \<Rightarrow> PACKET_TYPE option" where
  "packet_type_of tag = find (\<lambda>t. type_tag t = tag) all_packet_types"

text \<open>A two-byte little-endian field: low byte first.\<close>

definition le16 :: "byte \<Rightarrow> byte \<Rightarrow> u16" where
  "le16 lo hi = ucast lo OR push_bit 8 (ucast hi)"

datatype DecodeError = UnknownType | Truncated

text \<open>
  The events a decoded message stands for. The four server events carry the
  fields of their drawn layout; the document draws no layout for the other
  types, whose body is carried as it came.
\<close>

datatype Event =
    RumbleRequested u16 u16 u16
  | RumbleTriggersRequested u16 u16 u16
  | MotionEventEnabled u16 u16 byte
  | RgbLedRequested u16 byte byte byte
  | Undecoded PACKET_TYPE "byte list"

text \<open>
  Modelled from the spec: the decoder of a decrypted message is not among the
  sources (only the protocol document is). The layouts are the document's:
  \<^item> Rumble data (0x010b): unused 4, ctrl 2, low freq 2, high freq 2;
  \<^item> Rumble triggers (0x5500): ctrl 2, left 2, right 2;
  \<^item> Motion event (0x5501): ctrl 2, rate 2, type 1;
  \<^item> RGB LED (0x5502): ctrl 2, R 1, G 1, B 1.
  A body shorter than the fixed fields of its type is \<open>Truncated\<close>.
\<close>

definition decode_rumble_data :: "byte list \<Rightarrow> DecodeError + Event" where
  "decode_rumble_data body =
     (case body of
        u0 # u1 # u2 # u3 # c0 # c1 # l0 # l1 # h0 # h1 # rest \<Rightarrow>
          Inr (RumbleRequested (le16 c0 c1) (le16 l0 l1) (le16 h0 h1))
      | _ \<Rightarrow> Inl Truncated)"

definition decode_rumble_triggers :: "byte list \<Rightarrow> DecodeError + Event" where
  "decode_rumble_triggers body =
     (case body of
        c0 # c1 # l0 # l1 # r0 # r1 # rest \<Rightarrow>
          Inr (RumbleTriggersRequested (le16 c0 c1) (le16 l0 l1) (le16 r0 r1))
      | _ \<Rightarrow> Inl Truncated)"

definition decode_motion_event :: "byte list \<Rightarrow> DecodeError + Event" where
  "decode_motion_event body =
     (case body of
        c0 # c1 # r0 # r1 # k # rest \<Rightarrow>
          Inr (MotionEventEnabled (le16 c0 c1) (le16 r0 r1) k)
      | _ \<Rightarrow> Inl Truncated)"

definition decode_rgb_led :: "byte list \<Rightarrow> DecodeError + Event" where
  "decode_rgb_led body =
     (case body of
        c0 # c1 # r # g # b # rest \<Rightarrow> Inr (RgbLedRequested (le16 c0 c1) r g b)
      | _ \<Rightarrow> Inl Truncated)"

definition decode_payload :: "PACKET_TYPE \<Rightarrow> byte list \<Rightarrow> DecodeError + Event" where
  "decode_payload t body =
     (case t of
        RUMBLE_DATA \<Rightarrow> decode_rumble_data body
      | RUMBLE_TRIGGERS \<Rightarrow> decode_rumble_triggers body
      | MOTION_EVENT \<Rightarrow> decode_motion_event body
      | RGB_LED \<Rightarrow> decode_rgb_led body
      | _ \<Rightarrow> Inr (Undecoded t body))"

text \<open>
  Modelled from the spec: \<open>decode(msg_type, body)\<close> of the message registry, which
  is not among the sources. A tag outside the closed set is \<open>UnknownType\<close>.
\<close>

definition decode :: "u16 \<Rightarrow> byte list \<Rightarrow> DecodeError + Event" where
  "decode msg_type body =
     (case packet_type_of msg_type of
        None \<Rightarrow> Inl UnknownType
      | Some t \<Rightarrow> decode_payload t body)"

section \<open>Streaming: the subscribers of a media pipeline\<close>

text \<open>
  \<open>start_streaming_video\<close> and \<open>start_streaming_audio\<close> hand \<open>run_pipeline\<close> a
  callback, which \<open>run_pipeline\<close> calls with the pipeline and its main loop once both
  exist. The callback registers handlers on the session's event bus and returns the
  registrations. The handlers read two events: a \<open>ControlEvent\<close> (fields
  \<open>session_id\<close> and \<open>type\<close>) and a \<open>TerminateEvent\<close> (field \<open>session_id\<close>).
\<close>

type_synonym session_id = nat

record ControlEvent =
  ctrl_session_id :: session_id
  ctrl_type :: PACKET_TYPE

record TerminateEvent =
  term_session_id :: session_id

record VideoSession =
  video_session_id :: session_id

record AudioSession =
  audio_session_id :: session_id

text \<open>
  The pipeline and the main loop are handles into the media library; a handler
  captures the ones of its own pipeline.
\<close>

type_synonym gst_element_ptr = nat
type_synonym gst_main_loop_ptr = nat

text \<open>
  What a handler does to the world outside, in the order it happens: a debug line,
  an event sent to the element found under a name in a pipeline
  (\<open>gst_bin_get_by_name\<close>, then \<open>gst_element_send_event\<close>), or quitting a main loop.
\<close>

datatype GstStructure = GstStructure string "(string \<times> bool) list"

datatype GstEvent = GST_EVENT_CUSTOM_UPSTREAM GstStructure

datatype effect =
    log_debug string
  | gst_element_send_event gst_element_ptr string GstEvent
  | g_main_loop_quit gst_main_loop_ptr

definition force_key_unit :: GstEvent where
  "force_key_unit =
     GST_EVENT_CUSTOM_UPSTREAM (GstStructure ''GstForceKeyUnit'' [(''all-headers'', True)])"

text \<open>The handler of the forced IDR, registered by \<open>start_streaming_video\<close>.\<close>

definition idr_handler ::
  "session_id \<Rightarrow> gst_element_ptr \<Rightarrow> ControlEvent \<Rightarrow> effect list \<Rightarrow> effect list" where
  "idr_handler sess_id pipeline ctrl_ev fx =
     (if ctrl_session_id ctrl_ev = sess_id then
        (if ctrl_type ctrl_ev = IDR_FRAME then
           fx @ [log_debug ''[GSTREAMER] Forcing IDR'',
                 gst_element_send_event pipeline ''moonlight_pay'' force_key_unit]
         else fx)
      else fx)"

text \<open>The terminate handler registered by \<open>start_streaming_video\<close>.\<close>

definition terminate_handler ::
  "session_id \<Rightarrow> gst_main_loop_ptr \<Rightarrow> TerminateEvent \<Rightarrow> effect list \<Rightarrow> effect list" where
  "terminate_handler sess_id loop term_ev fx =
     (if term_session_id term_ev = sess_id then
        fx @ [log_debug ''[GSTREAMER] Terminating video pipeline'', g_main_loop_quit loop]
      else fx)"

text \<open>The terminate handler registered by \<open>start_streaming_audio\<close>.\<close>

definition audio_terminate_handler ::
  "session_id \<Rightarrow> gst_main_loop_ptr \<Rightarrow> TerminateEvent \<Rightarrow> effect list \<Rightarrow> effect list" where
  "audio_terminate_handler sess_id loop term_ev fx =
     (if term_session_id term_ev = sess_id then
        fx @ [log_debug ''[GSTREAMER] Terminating audio pipeline'', g_main_loop_quit loop]
      else fx)"

text \<open>
  A registration is typed by the event it was made for
  (\<open>register_handler<immer::box<ControlEvent>>\<close>,
  \<open>register_handler<immer::box<TerminateEvent>>\<close>).
\<close>

datatype bus_event = ControlEv ControlEvent | TerminateEv TerminateEvent

datatype handler_registration =
    ControlHandler "ControlEvent \<Rightarrow> effect list \<Rightarrow> effect list"
  | TerminateHandler "TerminateEvent \<Rightarrow> effect list \<Rightarrow> effect list"

fun event_session_id :: "bus_event \<Rightarrow> session_id" where
  "event_session_id (ControlEv e) = ctrl_session_id e"
| "event_session_id (TerminateEv e) = term_session_id e"

text \<open>
  Modelled from the spec: the event bus is a library outside the sources. It holds,
  per event kind, the subscribers in subscription order; publishing invokes each
  subscriber of the event's kind, in that order, before it returns.
\<close>

type_synonym event_bus = "handler_registration list"

definition register_handler :: "handler_registration \<Rightarrow> event_bus \<Rightarrow> event_bus" where
  "register_handler h bus = bus @ [h]"

fun invoke :: "handler_registration \<Rightarrow> bus_event \<Rightarrow> effect list \<Rightarrow> effect list" where
  "invoke (ControlHandler f) (ControlEv e) fx = f e fx"
| "invoke (TerminateHandler f) (TerminateEv e) fx = f e fx"
| "invoke h e fx = fx"

definition publish :: "event_bus \<Rightarrow> bus_event \<Rightarrow> effect list \<Rightarrow> effect list" where
  "publish bus e fx = foldl (\<lambda>acc h. invoke h e acc) fx bus"

text \<open>
  The callback of \<open>start_streaming_video\<close>: it registers the IDR handler, then the
  terminate handler, on the bus of the session, and returns both registrations
  (with the bus as the registrations left it).
\<close>

definition video_on_pipeline_ready ::
  "VideoSession \<Rightarrow> gst_element_ptr \<Rightarrow> gst_main_loop_ptr \<Rightarrow> event_bus \<Rightarrow>
     handler_registration list \<times> event_bus" where
  "video_on_pipeline_ready video_session pipeline loop bus =
     (let idr = ControlHandler (idr_handler (video_session_id video_session) pipeline);
          bus1 = register_handler idr bus;
          term = TerminateHandler (terminate_handler (video_session_id video_session) loop);
          bus2 = register_handler term bus1
      in ([idr, term], bus2))"

text \<open>The callback of \<open>start_streaming_audio\<close>: one terminate handler.\<close>

definition audio_on_pipeline_ready ::
  "AudioSession \<Rightarrow> gst_element_ptr \<Rightarrow> gst_main_loop_ptr \<Rightarrow> event_bus \<Rightarrow>
     handler_registration list \<times> event_bus" where
  "audio_on_pipeline_ready audio_session pipeline loop bus =
     (let term = TerminateHandler
                   (audio_terminate_handler (audio_session_id audio_session) loop);
          bus1 = register_handler term bus
      in ([term], bus1))"

section \<open>The documented layouts\<close>

lemma packet_type_of_type_tag: "packet_type_of (type_tag t) = Some t"
  by (cases t) (simp_all add: packet_type_of_def all_packet_types_def)

lemma le16_add: "le16 lo hi = ucast lo + push_bit 8 (ucast hi)"
proof -
  have "(ucast lo :: 16 word) AND push_bit 8 (ucast hi) = 0"
    by (rule bit_eqI) (auto simp: bit_simps dest: bit_imp_le_length)
  then show ?thesis
    unfolding le16_def by (simp add: disjunctive_add_eq_or)
qed

text \<open>Little-endian: the first byte is the low one.\<close>

lemma le16_unat: "unat (le16 lo hi) = unat lo + 256 * unat hi"
proof -
  have lo: "unat lo < 256" and hi: "unat hi < 256"
    using unsigned_less [of lo] unsigned_less [of hi] by simp_all
  have "unat (le16 lo hi) = (unat lo + 256 * unat hi) mod 65536"
    by (simp add: le16_add unat_word_ariths unsigned_ucast_eq unsigned_push_bit_eq
        push_bit_eq_mult take_bit_eq_mod mod_simps mult.commute)
  also have "\<dots> = unat lo + 256 * unat hi"
    using lo hi by simp
  finally show ?thesis .
qed

lemma decode_rgb_led_layout:
  "decode 0x5502 (c0 # c1 # r # g # b # rest) = Inr (RgbLedRequested (le16 c0 c1) r g b)"
  by (simp add: decode_def packet_type_of_def all_packet_types_def decode_payload_def
      decode_rgb_led_def)

lemma decode_rgb_led_truncated:
  "length body < 5 \<Longrightarrow> decode 0x5502 body = Inl Truncated"
  by (auto simp: decode_def packet_type_of_def all_packet_types_def decode_payload_def
      decode_rgb_led_def split: list.splits)

text \<open>
  C8. Decoding a message of type 0x5502 (RGB LED) with the body
  \<open>[0x01, 0x00, 0x10, 0x20, 0x30]\<close> gives the event for controller 1 with
  r = 0x10, g = 0x20, b = 0x30: the controller is the little-endian two-byte field,
  the colours are the three bytes after it.
\<close>

theorem decode_rgb_led_scenario:
  "decode 0x5502 [0x01, 0x00, 0x10, 0x20, 0x30] = Inr (RgbLedRequested 1 0x10 0x20 0x30)"
  by (simp add: decode_def packet_type_of_def all_packet_types_def decode_payload_def
      decode_rgb_led_def le16_def)

section \<open>Session filtering in the pipeline's subscribers\<close>

lemma publish_append: "publish (bus @ hs) e fx = publish hs e (publish bus e fx)"
  by (simp add: publish_def)

lemma publish_video_on_pipeline_ready_control:
  "publish (snd (video_on_pipeline_ready vs pipeline loop bus)) (ControlEv ce) fx =
     idr_handler (video_session_id vs) pipeline ce (publish bus (ControlEv ce) fx)"
  by (simp add: video_on_pipeline_ready_def register_handler_def Let_def publish_def)

lemma publish_video_on_pipeline_ready_terminate:
  "publish (snd (video_on_pipeline_ready vs pipeline loop bus)) (TerminateEv te) fx =
     terminate_handler (video_session_id vs) loop te (publish bus (TerminateEv te) fx)"
  by (simp add: video_on_pipeline_ready_def register_handler_def Let_def publish_def)

lemma publish_audio_on_pipeline_ready_control:
  "publish (snd (audio_on_pipeline_ready as pipeline loop bus)) (ControlEv ce) fx =
     publish bus (ControlEv ce) fx"
  by (simp add: audio_on_pipeline_ready_def register_handler_def Let_def publish_def)

lemma publish_audio_on_pipeline_ready_terminate:
  "publish (snd (audio_on_pipeline_ready as pipeline loop bus)) (TerminateEv te) fx =
     audio_terminate_handler (audio_session_id as) loop te (publish bus (TerminateEv te) fx)"
  by (simp add: audio_on_pipeline_ready_def register_handler_def Let_def publish_def)

lemma idr_handler_other_session:
  "ctrl_session_id ctrl_ev \<noteq> sess_id \<Longrightarrow> idr_handler sess_id pipeline ctrl_ev fx = fx"
  by (simp add: idr_handler_def)

lemma idr_handler_other_type:
  "ctrl_type ctrl_ev \<noteq> IDR_FRAME \<Longrightarrow> idr_handler sess_id pipeline ctrl_ev fx = fx"
  by (simp add: idr_handler_def)

lemma terminate_handler_other_session:
  "term_session_id term_ev \<noteq> sess_id \<Longrightarrow> terminate_handler sess_id loop term_ev fx = fx"
  by (simp add: terminate_handler_def)

lemma audio_terminate_handler_other_session:
  "term_session_id term_ev \<noteq> sess_id \<Longrightarrow>
     audio_terminate_handler sess_id loop term_ev fx = fx"
  by (simp add: audio_terminate_handler_def)

text \<open>The audio pipeline's one subscriber filters in the same way.\<close>

lemma audio_subscriber_other_session:
  "event_session_id ev \<noteq> audio_session_id as \<Longrightarrow>
     publish (snd (audio_on_pipeline_ready as pipeline loop bus)) ev fx = publish bus ev fx"
  by (cases ev)
    (simp_all add: publish_audio_on_pipeline_ready_control
      publish_audio_on_pipeline_ready_terminate audio_terminate_handler_other_session)

text \<open>
  C10. The subscribers that \<open>start_streaming_video\<close> registers filter by session
  themselves. With them on the bus, a published \<open>ControlEvent\<close> adds the forced
  key unit (sent to \<open>moonlight_pay\<close> of this pipeline) exactly when its
  \<open>session_id\<close> is the video session's and its type is \<open>IDR_FRAME\<close>; a published
  \<open>TerminateEvent\<close> quits this pipeline's main loop exactly when its \<open>session_id\<close>
  is the video session's; and an event of any other session adds nothing to what the
  subscribers registered before them do.
\<close>

theorem video_subscribers_filter_by_session:
  "publish (snd (video_on_pipeline_ready vs pipeline loop bus)) (ControlEv ce) fx =
     (if ctrl_session_id ce = video_session_id vs \<and> ctrl_type ce = IDR_FRAME
      then publish bus (ControlEv ce) fx @
             [log_debug ''[GSTREAMER] Forcing IDR'',
              gst_element_send_event pipeline ''moonlight_pay'' force_key_unit]
      else publish bus (ControlEv ce) fx)
   \<and> publish (snd (video_on_pipeline_ready vs pipeline loop bus)) (TerminateEv te) fx =
     (if term_session_id te = video_session_id vs
      then publish bus (TerminateEv te) fx @
             [log_debug ''[GSTREAMER] Terminating video pipeline'', g_main_loop_quit loop]
      else publish bus (TerminateEv te) fx)
   \<and> (event_session_id ev \<noteq> video_session_id vs \<longrightarrow>
        publish (snd (video_on_pipeline_ready vs pipeline loop bus)) ev fx = publish bus ev fx)"
proof (intro conjI impI)
  show "publish (snd (video_on_pipeline_ready vs pipeline loop bus)) (ControlEv ce) fx =
     (if ctrl_session_id ce = video_session_id vs \<and> ctrl_type ce = IDR_FRAME
      then publish bus (ControlEv ce) fx @
             [log_debug ''[GSTREAMER] Forcing IDR'',
              gst_element_send_event pipeline ''moonlight_pay'' force_key_unit]
      else publish bus (ControlEv ce) fx)"
    by (simp add: publish_video_on_pipeline_ready_control idr_handler_def)
  show "publish (snd (video_on_pipeline_ready vs pipeline loop bus)) (TerminateEv te) fx =
     (if term_session_id te = video_session_id vs
      then publish bus (TerminateEv te) fx @
             [log_debug ''[GSTREAMER] Terminating video pipeline'', g_main_loop_quit loop]
      else publish bus (TerminateEv te) fx)"
    by (simp add: publish_video_on_pipeline_ready_terminate terminate_handler_def)
next
  assume other: "event_session_id ev \<noteq> video_session_id vs"
  show "publish (snd (video_on_pipeline_ready vs pipeline loop bus)) ev fx = publish bus ev fx"
  proof (cases ev)
    case (ControlEv e)
    with other show ?thesis
      by (simp add: publish_video_on_pipeline_ready_control idr_handler_other_session)
  next
    case (TerminateEv e)
    with other show ?thesis
      by (simp add: publish_video_on_pipeline_ready_terminate
          terminate_handler_other_session)
  qed
qed

text \<open>
  The theorem at the video session 7 with pipeline 1 and main loop 2, alone on the
  bus: its own IDR request and its own termination act, an IDR request of session 8
  does nothing.
\<close>

theorem video_subscribers_filter_by_session_witness:
  "publish (snd (video_on_pipeline_ready \<lparr>video_session_id = 7\<rparr> 1 2 []))
       (ControlEv \<lparr>ctrl_session_id = 7, ctrl_type = IDR_FRAME\<rparr>) [] =
     [log_debug ''[GSTREAMER] Forcing IDR'',
      gst_element_send_event 1 ''moonlight_pay'' force_key_unit]
   \<and> publish (snd (video_on_pipeline_ready \<lparr>video_session_id = 7\<rparr> 1 2 []))
       (TerminateEv \<lparr>term_session_id = 7\<rparr>) [] =
     [log_debug ''[GSTREAMER] Terminating video pipeline'', g_main_loop_quit 2]
   \<and> event_session_id (ControlEv \<lparr>ctrl_session_id = 8, ctrl_type = IDR_FRAME\<rparr>)
       \<noteq> video_session_id \<lparr>video_session_id = 7\<rparr>
   \<and> publish (snd (video_on_pipeline_ready \<lparr>video_session_id = 7\<rparr> 1 2 []))
       (ControlEv \<lparr>ctrl_session_id = 8, ctrl_type = IDR_FRAME\<rparr>) [] = []"
  using video_subscribers_filter_by_session
    [where vs = "\<lparr>video_session_id = 7\<rparr>" and pipeline = 1 and loop = 2 and bus = "[]"
       and ce = "\<lparr>ctrl_session_id = 7, ctrl_type = IDR_FRAME\<rparr>"
       and te = "\<lparr>term_session_id = 7\<rparr>"
       and ev = "ControlEv \<lparr>ctrl_session_id = 8, ctrl_type = IDR_FRAME\<rparr>"
       and fx = "[]"]
  by (simp add: publish_def)

end
